theory Spec2Isabelle
  imports Main "HOL-Library.Multiset"
begin

section \<open>Data model\<close>

text \<open>
  A cell of one of the two key columns. \<^verbatim>\<open>S3FileHandler.get_files\<close> builds the frame
  with \<^verbatim>\<open>pd.read_csv\<close> and \<^verbatim>\<open>pd.concat\<close>, so a cell can be missing: it is then the
  float \<^verbatim>\<open>nan\<close>. A cell that is present is modelled as text, on which \<^verbatim>\<open>__str__\<close> is
  the identity; \<^verbatim>\<open>nan.__str__()\<close> is \<^verbatim>\<open>'nan'\<close>.
\<close>

datatype cell = NaN | Text string

fun cell_str :: "cell \<Rightarrow> string" where
  "cell_str NaN = ''nan''"
| "cell_str (Text s) = s"

text \<open>
  The comparison \<^verbatim>\<open>==\<close> of a column with a value, row by row (lines 66 and 72 of
  \<^verbatim>\<open>main.py\<close>): a missing cell is equal to nothing, not even to \<^verbatim>\<open>nan\<close>.
\<close>

definition pd_eq :: "cell \<Rightarrow> cell \<Rightarrow> bool" where
  "pd_eq c v = (c \<noteq> NaN \<and> c = v)"

text \<open>
  A dataset row, as \<^verbatim>\<open>main.py\<close> and \<^verbatim>\<open>invokemodel.py\<close> read it from the data frame:
  the four named columns, and whatever other columns the CSV files carried.
\<close>

record row =
  item_id :: string
  marketplace_id :: cell
  img_id :: string
  product_type :: cell
  passthrough :: "(string \<times> string) list"

text \<open>The dictionary appended to \<^verbatim>\<open>data\<close> in \<^verbatim>\<open>invoke_model\<close> (lines 167 to 174).\<close>

record ('n, 'd) result_row =
  r_item_id :: string
  r_marketplace_id :: cell
  r_img_id :: string
  r_product_type :: cell
  neighbor_item_ids :: 'n
  neighbors_dist :: 'd

definition data_entry :: "row \<Rightarrow> 'n \<Rightarrow> 'd \<Rightarrow> ('n, 'd) result_row" where
  "data_entry r n_item_id distance =
     \<lparr>r_item_id = item_id r, r_marketplace_id = marketplace_id r, r_img_id = img_id r,
      r_product_type = product_type r, neighbor_item_ids = n_item_id,
      neighbors_dist = distance\<rparr>"

section \<open>Formatting the neighbour response (invokemodel.py, lines 162 to 177)\<close>

text \<open>
  The three nested \<^verbatim>\<open>for\<close> loops, each as a recursion that threads the list
  \<^verbatim>\<open>data\<close>. Python's \<^verbatim>\<open>zip\<close> stops at the shorter of its two arguments, which is
  the second equation of \<open>zip_loop\<close> and of \<open>outer_loop\<close>. The counter \<^verbatim>\<open>index\<close> is
  incremented and never read, so it is left out.
\<close>

fun zip_loop :: "row \<Rightarrow> 'n list \<Rightarrow> 'd list \<Rightarrow> ('n, 'd) result_row list \<Rightarrow> ('n, 'd) result_row list" where
  "zip_loop r (n_item_id # ns) (distance # ds) data =
     zip_loop r ns ds (data @ [data_entry r n_item_id distance])"
| "zip_loop r _ _ data = data"

fun iterrows_loop :: "row list \<Rightarrow> 'n list \<Rightarrow> 'd list \<Rightarrow> ('n, 'd) result_row list \<Rightarrow> ('n, 'd) result_row list" where
  "iterrows_loop [] n_item_ids_list distance_list data = data"
| "iterrows_loop (r # rs) n_item_ids_list distance_list data =
     iterrows_loop rs n_item_ids_list distance_list (zip_loop r n_item_ids_list distance_list data)"

fun outer_loop :: "row list \<Rightarrow> 'n list list \<Rightarrow> 'd list list \<Rightarrow> ('n, 'd) result_row list \<Rightarrow> ('n, 'd) result_row list" where
  "outer_loop df_chunk (n_item_ids_list # nss) (distance_list # dss) data =
     outer_loop df_chunk nss dss (iterrows_loop df_chunk n_item_ids_list distance_list data)"
| "outer_loop df_chunk _ _ data = data"

definition format_results :: "row list \<Rightarrow> 'n list list \<Rightarrow> 'd list list \<Rightarrow> ('n, 'd) result_row list" where
  "format_results df_chunk neighbor_ids neighbor_distances =
     outer_loop df_chunk neighbor_ids neighbor_distances []"

section \<open>Status envelopes and exceptions\<close>

text \<open>
  The dictionary \<^verbatim>\<open>{'event_message': ..., 'reason': ...}\<close> that every layer raises or
  returns.
\<close>

record envelope =
  event_message :: string
  reason :: string

text \<open>
  The exceptions the code distinguishes. \<open>Exception v\<close> is \<^verbatim>\<open>Exception(v)\<close> for an
  envelope \<open>v\<close>; \<open>KeyError k\<close> is a failed dictionary lookup of the key \<open>k\<close>;
  \<open>IndexError\<close> is \<^verbatim>\<open>[][0]\<close>; \<open>OtherException m\<close> is any other subclass of
  \<^verbatim>\<open>Exception\<close>, with \<open>m\<close> its \<^verbatim>\<open>str\<close>.
\<close>

datatype py_exn =
    NoCredentialsError
  | KeyError string
  | IndexError
  | OtherException string
  | Exception envelope

text \<open>
  \<^verbatim>\<open>str(e)\<close>. The \<^verbatim>\<open>str\<close> of a dictionary and of a \<^verbatim>\<open>KeyError\<close> quote their
  strings with Python's \<^verbatim>\<open>repr\<close>, which is a parameter here.
\<close>

fun py_str :: "(string \<Rightarrow> string) \<Rightarrow> py_exn \<Rightarrow> string" where
  "py_str rp NoCredentialsError = ''Unable to locate credentials''"
| "py_str rp (KeyError k) = rp k"
| "py_str rp IndexError = ''list index out of range''"
| "py_str rp (OtherException m) = m"
| "py_str rp (Exception v) =
     ''{'' @ rp ''event_message'' @ '': '' @ rp (event_message v) @ '', '' @
     rp ''reason'' @ '': '' @ rp (reason v) @ ''}''"

text \<open>\<^verbatim>\<open>str(n)\<close> of a natural number: its decimal digits.\<close>

definition digit_char :: "nat \<Rightarrow> char" where
  "digit_char d = ''0123456789'' ! d"

fun str_nat :: "nat \<Rightarrow> string" where
  "str_nat n = (if n < 10 then [digit_char n] else str_nat (n div 10) @ [digit_char (n mod 10)])"

declare str_nat.simps [simp del]

text \<open>
  A Python value that is either a dictionary (an envelope) or a data frame: what
  \<^verbatim>\<open>type(x) == dict\<close> tests in \<^verbatim>\<open>main.py\<close>.
\<close>

datatype 'f py_value = DictValue envelope | FrameValue 'f

section \<open>The remote services\<close>

record credentials =
  AccessKeyId :: string
  SecretAccessKey :: string
  SessionToken :: string

text \<open>\<^verbatim>\<open>self.prompt\<close> and \<^verbatim>\<open>input_artifact\<close>, the bodies of the two requests.\<close>

record stage1_prompt =
  physical_id :: "string list"
  prompt_pt :: cell

record 'e input_artifact =
  embedding :: 'e
  artifact_pt :: cell
  marketplace :: string

datatype 'e body = PromptText stage1_prompt | ArtifactJson "'e input_artifact"

record 'e endpoint_request =
  aws_credentials :: credentials
  region_name :: string
  EndpointName :: string
  Body :: "'e body"
  ContentType :: string
  Accept :: string

datatype 'e call =
    AssumeRole string string string
  | InvokeEndpoint "'e endpoint_request"

text \<open>
  How a computation ends when it raises no exception that \<^verbatim>\<open>except Exception\<close> catches.
  \<open>Returns v\<close>: it returns \<open>v\<close>. \<open>Exits\<close>: an exception outside \<^verbatim>\<open>Exception\<close> leaves it,
  such as the \<^verbatim>\<open>SystemExit\<close> of \<^verbatim>\<open>exit()\<close>; no handler of the three files catches it,
  so it leaves every enclosing function and no envelope is raised. In a result
  \<open>py_exn + 'a outcome\<close>, \<open>Inl e\<close> is the exception \<open>e\<close> raised.
\<close>

datatype 'a outcome = Exits | Returns 'a

text \<open>
  Everything outside the three source files. The remote services answer a call as a
  function of all the calls made so far, the last of which is the call being answered;
  \<open>Inl e\<close> is the exception raised by the call or by the reading of its answer
  (the subscripts of lines 103 to 105, \<^verbatim>\<open>read\<close> and \<^verbatim>\<open>decode\<close>).
  \<open>eval_embeddings\<close> is \<^verbatim>\<open>np.array(eval(outp)['embeddings'])\<close> of line 122 and
  \<open>eval_neighbors\<close> is \<^verbatim>\<open>eval(eval(outp))\<close> of line 145 with the two subscripts of
  lines 147 and 148. \<^verbatim>\<open>eval\<close> is Python's: it runs the response body as a Python
  expression, whatever the body is, so what it does is a parameter, with three ways to
  end: it raises an exception that \<^verbatim>\<open>except Exception\<close> catches, it raises one that
  \<^verbatim>\<open>except Exception\<close> does not catch (\<open>Exits\<close>), or it yields a value, here lists of
  lists. Nothing restricts these functions to JSON texts. What the evaluated expression
  may do to the process besides this (files, network) is outside the model.
  \<open>files\<close> is what \<^verbatim>\<open>S3FileHandler().get_files()\<close> does, \<open>to_csv\<close> what writing the
  combined frame does, \<open>formatted_date\<close> the date of the run.
\<close>

record ('e, 'n, 'd, 'o) world =
  sts_reply :: "'e call list \<Rightarrow> py_exn + credentials"
  endpoint_reply :: "'e call list \<Rightarrow> py_exn + string"
  eval_embeddings :: "string \<Rightarrow> py_exn + 'e outcome"
  eval_neighbors :: "string \<Rightarrow> py_exn + ('n list list \<times> 'd list list) outcome"
  repr :: "string \<Rightarrow> string"
  files :: "py_exn + row list py_value"
  to_csv :: "string \<Rightarrow> 'o list \<Rightarrow> py_exn option"
  formatted_date :: string

section \<open>InvokeModel (invokemodel.py)\<close>

definition mps_mapping :: "string \<rightharpoonup> string" where
  "mps_mapping = [''000000'' \<mapsto> ''US'', ''111111'' \<mapsto> ''UK'', ''222222'' \<mapsto> ''ES'']"

record InvokeModel =
  role_arn :: string
  region :: string
  batch_size :: nat
  df_chunk :: "row list"
  img_id_list :: "string list"
  pt :: cell
  mp :: string
  prompt :: stage1_prompt

text \<open>
  \<^verbatim>\<open>InvokeModel.__init__\<close>: \<^verbatim>\<open>tolist()[0]\<close> raises on an empty chunk, the dictionary
  lookup raises on a marketplace that is not a key.
\<close>

definition InvokeModel_init :: "row list \<Rightarrow> py_exn + InvokeModel" where
  "InvokeModel_init chunk =
     (case chunk of
        [] \<Rightarrow> Inl IndexError
      | r # _ \<Rightarrow>
          (case mps_mapping (cell_str (marketplace_id r)) of
             None \<Rightarrow> Inl (KeyError (cell_str (marketplace_id r)))
           | Some code \<Rightarrow>
               Inr \<lparr>role_arn = ''arn:aws:iam::123456789012:role/MyEC2Role'',
                    region = ''us-east-2'',
                    batch_size = 32,
                    df_chunk = chunk,
                    img_id_list = map img_id chunk,
                    pt = product_type r,
                    mp = code,
                    prompt = \<lparr>physical_id = map img_id chunk, prompt_pt = product_type r\<rparr>\<rparr>))"

text \<open>
  The three calls of \<^verbatim>\<open>invoke_model\<close>: \<^verbatim>\<open>assume_role\<close> (lines 94 to 97), the
  first \<^verbatim>\<open>invoke_endpoint\<close> (lines 110 to 115) and the second (lines 133 to 138), made
  by the client that line 100 builds from the credentials.
\<close>

definition assume_role_call :: "InvokeModel \<Rightarrow> 'e call" where
  "assume_role_call self = AssumeRole (role_arn self) ''RoleSessionName'' (region self)"

definition embeddings_request :: "InvokeModel \<Rightarrow> credentials \<Rightarrow> 'e endpoint_request" where
  "embeddings_request self assumed_role =
     \<lparr>aws_credentials = assumed_role, region_name = region self,
      EndpointName = ''EndpointName'', Body = PromptText (prompt self),
      ContentType = ''text/csv'', Accept = ''application/json''\<rparr>"

definition neighbors_request :: "InvokeModel \<Rightarrow> credentials \<Rightarrow> 'e \<Rightarrow> 'e endpoint_request" where
  "neighbors_request self assumed_role embeddings =
     (let input_artifact =
            \<lparr>embedding = embeddings, artifact_pt = pt self, marketplace = mp self\<rparr>
      in \<lparr>aws_credentials = assumed_role, region_name = region self,
          EndpointName = ''EndpointName'', Body = ArtifactJson input_artifact,
          ContentType = ''application/json'', Accept = ''application/json''\<rparr>)"

text \<open>
  The body of the \<^verbatim>\<open>try\<close> statement of \<^verbatim>\<open>invoke_model\<close> (lines 93 to 148). It returns
  the exception that leaves the block or the two neighbour lists, and the calls made;
  the last evaluation is the last statement, so its outcome is that of the block.
\<close>

definition try_block ::
  "('e, 'n, 'd, 'o) world \<Rightarrow> InvokeModel \<Rightarrow> 'e call list \<Rightarrow>
     (py_exn + ('n list list \<times> 'd list list) outcome) \<times> 'e call list" where
  "try_block w self h =
     (let h1 = h @ [assume_role_call self] in
      case sts_reply w h1 of
        Inl e \<Rightarrow> (Inl e, h1)
      | Inr assumed_role \<Rightarrow>
          (let h2 = h1 @ [InvokeEndpoint (embeddings_request self assumed_role)] in
           case endpoint_reply w h2 of
             Inl e \<Rightarrow> (Inl e, h2)
           | Inr outp \<Rightarrow>
               (case eval_embeddings w outp of
                  Inl e \<Rightarrow> (Inl e, h2)
                | Inr Exits \<Rightarrow> (Inr Exits, h2)
                | Inr (Returns embeddings) \<Rightarrow>
                    (let h3 = h2 @ [InvokeEndpoint (neighbors_request self assumed_role embeddings)] in
                     case endpoint_reply w h3 of
                       Inl e \<Rightarrow> (Inl e, h3)
                     | Inr outp2 \<Rightarrow>
                         (case eval_neighbors w outp2 of
                            Inl e \<Rightarrow> (Inl e, h3)
                          | Inr res \<Rightarrow> (Inr res, h3))))))"

text \<open>The two \<^verbatim>\<open>except\<close> clauses (lines 150 to 159), in their order.\<close>

fun except_clauses :: "(string \<Rightarrow> string) \<Rightarrow> py_exn \<Rightarrow> py_exn" where
  "except_clauses rp NoCredentialsError =
     Exception \<lparr>event_message = ''FAILURE'', reason = ''Credentials could not be found''\<rparr>"
| "except_clauses rp e =
     Exception \<lparr>event_message = ''FAILURE'', reason = ''An error occurred: '' @ py_str rp e\<rparr>"

text \<open>
  \<^verbatim>\<open>invoke_model\<close>: the size check, the \<^verbatim>\<open>try\<close> statement, then the formatting of the
  result. Creating the two clients is local and is not a call.
\<close>

definition invoke_model ::
  "('e, 'n, 'd, 'o) world \<Rightarrow> InvokeModel \<Rightarrow> 'e call list \<Rightarrow>
     (py_exn + ('n, 'd) result_row list py_value outcome) \<times> 'e call list" where
  "invoke_model w self h =
     (if length (img_id_list self) > batch_size self
      then (Inl (Exception \<lparr>event_message = ''FAILURE'',
                   reason = ''the batch_size should be '' @ str_nat (batch_size self)\<rparr>), h)
      else
        (case try_block w self h of
           (Inl e, h') \<Rightarrow> (Inl (except_clauses (repr w) e), h')
         | (Inr Exits, h') \<Rightarrow> (Inr Exits, h')
         | (Inr (Returns (neighbor_ids, neighbor_distances)), h') \<Rightarrow>
             (Inr (Returns (FrameValue
                     (format_results (df_chunk self) neighbor_ids neighbor_distances))), h')))"

section \<open>Main (main.py)\<close>

text \<open>
  \<^verbatim>\<open>Series.unique()\<close>: the distinct values in order of first appearance; all missing
  cells count as one value.
\<close>

primrec unique_from :: "'a list \<Rightarrow> 'a list \<Rightarrow> 'a list" where
  "unique_from seen [] = []"
| "unique_from seen (x # xs) =
     (if x \<in> set seen then unique_from seen xs else x # unique_from (x # seen) xs)"

definition unique :: "'a list \<Rightarrow> 'a list" where
  "unique xs = unique_from [] xs"

text \<open>
  Lines 73 to 85: the batches of one (product type, marketplace) group.
  \<^verbatim>\<open>iloc[a:b]\<close> is \<open>take (b - a) (drop a g)\<close> and \<^verbatim>\<open>iloc[-r:]\<close> with \<open>0 < r\<close> is the
  last \<open>r\<close> rows. The source fixes \<^verbatim>\<open>batch_size\<close> at 32; with 0 the division of
  line 76 would raise.
\<close>

definition split_chunks :: "nat \<Rightarrow> 'a list \<Rightarrow> 'a list list" where
  "split_chunks B df_pt_mp =
     (let num_rows = length df_pt_mp;
          num_splits = num_rows div B;
          remaining_rows = num_rows mod B;
          dfs = map (\<lambda>i. take ((i + 1) * B - i * B) (drop (i * B) df_pt_mp)) [0..<num_splits]
      in if remaining_rows > 0 then dfs @ [drop (num_rows - remaining_rows) df_pt_mp] else dfs)"

text \<open>
  The groups in the order the two outer loops visit them (lines 64 to 72), and all the
  batches in the order the innermost loop receives them. The group of a missing product
  type or marketplace is empty, since \<^verbatim>\<open>==\<close> selects no row for it.
\<close>

definition groups :: "row list \<Rightarrow> row list list" where
  "groups df =
     concat (map (\<lambda>p. let df_pt = filter (\<lambda>r. pd_eq (product_type r) p) df in
                        map (\<lambda>mp_id. filter (\<lambda>r. pd_eq (marketplace_id r) mp_id) df_pt)
                            (unique (map marketplace_id df_pt)))
                 (unique (map product_type df)))"


definition all_chunks :: "nat \<Rightarrow> row list \<Rightarrow> row list list" where
  "all_chunks B df = concat (map (split_chunks B) (groups df))"

text \<open>A row of \<^verbatim>\<open>output_combined\<close>: a result row, or a dataset row with one more column.\<close>

datatype ('n, 'd) output_row =
    ResultRow "('n, 'd) result_row"
  | ErrorRow row string string

definition main_batch_size :: nat where
  "main_batch_size = 32"

definition output_path :: string where
  "output_path = ''/home/ec2-user/ml/datasets/output/''"

text \<open>
  Lines 90 and 91: \<^verbatim>\<open>model_obj = InvokeModel(df_chunk)\<close> and
  \<^verbatim>\<open>output = model_obj.invoke_model()\<close>.
\<close>

definition invoke_chunk ::
  "('e, 'n, 'd, 'o) world \<Rightarrow> row list \<Rightarrow> 'e call list \<Rightarrow>
     (py_exn + ('n, 'd) result_row list py_value outcome) \<times> 'e call list" where
  "invoke_chunk w chunk h =
     (case InvokeModel_init chunk of
        Inl e \<Rightarrow> (Inl e, h)
      | Inr model_obj \<Rightarrow> invoke_model w model_obj h)"

text \<open>
  The loop over the batches of one group (lines 88 to 103), threading
  \<^verbatim>\<open>output_combined\<close> and the calls made. An exception of either kind leaves the loop.
\<close>

fun chunk_loop ::
  "('e, 'n, 'd, ('n, 'd) output_row) world \<Rightarrow> row list list \<Rightarrow> ('n, 'd) output_row list \<Rightarrow>
     'e call list \<Rightarrow> (py_exn + ('n, 'd) output_row list outcome) \<times> 'e call list" where
  "chunk_loop w [] output_combined h = (Inr (Returns output_combined), h)"
| "chunk_loop w (chunk # dfs) output_combined h =
     (case invoke_chunk w chunk h of
        (Inl e, h') \<Rightarrow> (Inl e, h')
      | (Inr Exits, h') \<Rightarrow> (Inr Exits, h')
      | (Inr (Returns (DictValue output)), h') \<Rightarrow>
          chunk_loop w dfs
            (output_combined @ map (\<lambda>r. ErrorRow r ''ErroStatus'' (reason output)) chunk) h'
      | (Inr (Returns (FrameValue output)), h') \<Rightarrow>
          chunk_loop w dfs (output_combined @ map ResultRow output) h')"

text \<open>The loop over the marketplaces of one product type (lines 70 to 103).\<close>

fun mp_loop ::
  "('e, 'n, 'd, ('n, 'd) output_row) world \<Rightarrow> row list \<Rightarrow> cell list \<Rightarrow>
     ('n, 'd) output_row list \<Rightarrow> 'e call list \<Rightarrow>
     (py_exn + ('n, 'd) output_row list outcome) \<times> 'e call list" where
  "mp_loop w df_pt [] output_combined h = (Inr (Returns output_combined), h)"
| "mp_loop w df_pt (mp_id # mps) output_combined h =
     (case chunk_loop w
             (split_chunks main_batch_size (filter (\<lambda>r. pd_eq (marketplace_id r) mp_id) df_pt))
             output_combined h of
        (Inl e, h') \<Rightarrow> (Inl e, h')
      | (Inr Exits, h') \<Rightarrow> (Inr Exits, h')
      | (Inr (Returns oc), h') \<Rightarrow> mp_loop w df_pt mps oc h')"

text \<open>The loop over the product types (lines 64 to 103).\<close>

fun pt_loop ::
  "('e, 'n, 'd, ('n, 'd) output_row) world \<Rightarrow> row list \<Rightarrow> cell list \<Rightarrow>
     ('n, 'd) output_row list \<Rightarrow> 'e call list \<Rightarrow>
     (py_exn + ('n, 'd) output_row list outcome) \<times> 'e call list" where
  "pt_loop w df [] output_combined h = (Inr (Returns output_combined), h)"
| "pt_loop w df (p # pts) output_combined h =
     (let df_pt = filter (\<lambda>r. pd_eq (product_type r) p) df in
      case mp_loop w df_pt (unique (map marketplace_id df_pt)) output_combined h of
        (Inl e, h') \<Rightarrow> (Inl e, h')
      | (Inr Exits, h') \<Rightarrow> (Inr Exits, h')
      | (Inr (Returns oc), h') \<Rightarrow> pt_loop w df pts oc h')"

text \<open>
  What \<^verbatim>\<open>get_predictions\<close> returns: the dictionary of line 61, or the path of the file
  written, kept here with the rows written to it.
\<close>

datatype ('n, 'd) returned =
    ReturnedDict envelope
  | ReturnedPath string "('n, 'd) output_row list"

text \<open>
  \<^verbatim>\<open>Main.get_predictions\<close>: everything is inside one \<^verbatim>\<open>try\<close> whose handler, an
  \<^verbatim>\<open>except Exception\<close>, raises
  \<^verbatim>\<open>Exception({'event_message': 'FAILURE', 'reason': str(e)})\<close>.
\<close>

definition reraise :: "(string \<Rightarrow> string) \<Rightarrow> py_exn \<Rightarrow> py_exn" where
  "reraise rp e = Exception \<lparr>event_message = ''FAILURE'', reason = py_str rp e\<rparr>"

definition get_predictions ::
  "('e, 'n, 'd, ('n, 'd) output_row) world \<Rightarrow> 'e call list \<Rightarrow>
     (py_exn + ('n, 'd) returned outcome) \<times> 'e call list" where
  "get_predictions w h =
     (case files w of
        Inl e \<Rightarrow> (Inl (reraise (repr w) e), h)
      | Inr (DictValue df) \<Rightarrow> (Inr (Returns (ReturnedDict df)), h)
      | Inr (FrameValue df) \<Rightarrow>
          (case pt_loop w df (unique (map product_type df)) [] h of
             (Inl e, h') \<Rightarrow> (Inl (reraise (repr w) e), h')
           | (Inr Exits, h') \<Rightarrow> (Inr Exits, h')
           | (Inr (Returns output_combined), h') \<Rightarrow>
               (let file_path = output_path @ ''output-'' @ formatted_date w @ ''.csv'' in
                case to_csv w file_path output_combined of
                  Some e \<Rightarrow> (Inl (reraise (repr w) e), h')
                | None \<Rightarrow> (Inr (Returns (ReturnedPath file_path output_combined)), h'))))"

section \<open>Reading the calls made\<close>

text \<open>The bodies of the endpoint requests in a list of calls, in order.\<close>

fun request_bodies :: "'e call list \<Rightarrow> 'e body list" where
  "request_bodies [] = []"
| "request_bodies (AssumeRole a s g # cs) = request_bodies cs"
| "request_bodies (InvokeEndpoint rq # cs) = Body rq # request_bodies cs"

fun assume_role_calls :: "'e call list \<Rightarrow> nat" where
  "assume_role_calls [] = 0"
| "assume_role_calls (AssumeRole a s g # cs) = Suc (assume_role_calls cs)"
| "assume_role_calls (InvokeEndpoint rq # cs) = assume_role_calls cs"

section \<open>Example inputs\<close>

definition example_row0 :: row where
  "example_row0 = \<lparr>item_id = ''item0'', marketplace_id = Text ''000000'', img_id = ''img0'',
     product_type = Text ''FLAT_SHEET'', passthrough = []\<rparr>"

definition example_row1 :: row where
  "example_row1 = \<lparr>item_id = ''item1'', marketplace_id = Text ''000000'', img_id = ''img1'',
     product_type = Text ''FLAT_SHEET'', passthrough = []\<rparr>"

definition example_row2 :: row where
  "example_row2 = \<lparr>item_id = ''item2'', marketplace_id = Text ''111111'', img_id = ''img2'',
     product_type = Text ''FLAT_SHEET'', passthrough = []\<rparr>"

definition example_row3 :: row where
  "example_row3 = \<lparr>item_id = ''item3'', marketplace_id = Text ''222222'', img_id = ''img3'',
     product_type = Text ''PILLOW'', passthrough = []\<rparr>"

definition unknown_row :: row where
  "unknown_row = \<lparr>item_id = ''item9'', marketplace_id = Text ''999999'', img_id = ''img9'',
     product_type = Text ''FLAT_SHEET'', passthrough = []\<rparr>"


definition example_credentials :: credentials where
  "example_credentials = \<lparr>AccessKeyId = ''key'', SecretAccessKey = ''secret'', SessionToken = ''token''\<rparr>"

text \<open>
  The texts of some responses. \<open>embeddings_body\<close> is \<^verbatim>\<open>{"embeddings": [[1, 2]]}\<close> and
  \<open>neighbors_body\<close> is the JSON string that encodes
  \<^verbatim>\<open>{"neighbor_item_ids": [[7, 8]], "neighbor_item_ids_distances": [[1, 2]]}\<close>: both are
  JSON. \<open>single_quoted_body\<close> is \<^verbatim>\<open>{'embeddings': [[1, 2]]}\<close>, which is not JSON (its
  string is in single quotes) and is a Python dictionary display. \<open>json_true_body\<close> is
  \<^verbatim>\<open>{"embeddings": [[1, 2]], "ok": true}\<close>, which is JSON and in which Python reads
  \<^verbatim>\<open>true\<close> as a name that is not defined. \<open>exit_body\<close> is
  \<^verbatim>\<open>__import__('sys').exit()\<close>, a Python expression whose evaluation raises
  \<^verbatim>\<open>SystemExit\<close>.
\<close>

definition quote :: "string \<Rightarrow> string" where
  "quote s = [CHR 0x27] @ s @ [CHR 0x27]"

definition dquote :: "string \<Rightarrow> string" where
  "dquote s = [CHR 0x22] @ s @ [CHR 0x22]"

definition escaped_dquote :: "string \<Rightarrow> string" where
  "escaped_dquote s = [CHR 0x5C, CHR 0x22] @ s @ [CHR 0x5C, CHR 0x22]"

definition embeddings_body :: string where
  "embeddings_body = ''{'' @ dquote ''embeddings'' @ '': [[1, 2]]}''"

definition neighbors_body :: string where
  "neighbors_body =
     dquote (''{'' @ escaped_dquote ''neighbor_item_ids'' @ '': [[7, 8]], '' @
             escaped_dquote ''neighbor_item_ids_distances'' @ '': [[1, 2]]}'')"

definition single_quoted_body :: string where
  "single_quoted_body = ''{'' @ quote ''embeddings'' @ '': [[1, 2]]}''"

definition json_true_body :: string where
  "json_true_body =
     ''{'' @ dquote ''embeddings'' @ '': [[1, 2]], '' @ dquote ''ok'' @ '': true}''"

definition exit_body :: string where
  "exit_body = ''__import__('' @ quote ''sys'' @ '').exit()''"

text \<open>
  What line 122 does on these texts, as Python evaluates them: the two dictionary displays
  evaluate to a dictionary whose \<^verbatim>\<open>'embeddings'\<close> is \<^verbatim>\<open>[[1, 2]]\<close>, the text with
  \<^verbatim>\<open>true\<close> raises \<^verbatim>\<open>NameError\<close>, and \<open>exit_body\<close> raises \<^verbatim>\<open>SystemExit\<close>. No example
  sends another text; for those the function raises.
\<close>

definition example_eval_embeddings :: "string \<Rightarrow> py_exn + nat list list outcome" where
  "example_eval_embeddings outp =
     (if outp = embeddings_body then Inr (Returns [[1, 2]])
      else if outp = single_quoted_body then Inr (Returns [[1, 2]])
      else if outp = json_true_body
        then Inl (OtherException (''name '' @ quote ''true'' @ '' is not defined''))
      else if outp = exit_body then Inr Exits
      else Inl (OtherException ''invalid syntax (<string>, line 1)''))"

text \<open>
  A world in which every call succeeds: the first endpoint answers \<open>embeddings_body\<close>
  and the second \<open>neighbors_body\<close>. \<open>quote\<close> stands for \<^verbatim>\<open>repr\<close> on strings without
  quotes or escapes.
\<close>

definition answer :: "string \<Rightarrow> string \<Rightarrow> 'e call list \<Rightarrow> py_exn + string" where
  "answer first second h =
     (case last h of
        InvokeEndpoint rq \<Rightarrow>
          (case Body rq of PromptText p \<Rightarrow> Inr first | ArtifactJson a \<Rightarrow> Inr second)
      | AssumeRole a s g \<Rightarrow> Inl (OtherException ''no request''))"

definition example_world :: "(nat list list, nat, nat, (nat, nat) output_row) world" where
  "example_world =
     \<lparr>sts_reply = (\<lambda>h. Inr example_credentials),
      endpoint_reply = answer embeddings_body neighbors_body,
      eval_embeddings = example_eval_embeddings,
      eval_neighbors = (\<lambda>outp. if outp = neighbors_body then Inr (Returns ([[7, 8]], [[1, 2]]))
         else Inl (OtherException ''invalid syntax (<string>, line 1)'')),
      repr = quote,
      files = Inr (FrameValue [example_row0, example_row2, example_row3]),
      to_csv = (\<lambda>path rows. None),
      formatted_date = ''04-11-2026''\<rparr>"

text \<open>The same world, except that the first endpoint answers \<open>single_quoted_body\<close>.\<close>

definition single_quoted_world :: "(nat list list, nat, nat, (nat, nat) output_row) world" where
  "single_quoted_world = example_world\<lparr>endpoint_reply := answer single_quoted_body neighbors_body\<rparr>"

text \<open>The same world, except that the first endpoint answers \<open>json_true_body\<close>.\<close>

definition json_true_world :: "(nat list list, nat, nat, (nat, nat) output_row) world" where
  "json_true_world = example_world\<lparr>endpoint_reply := answer json_true_body neighbors_body\<rparr>"

text \<open>The same world, except that the first endpoint answers \<open>exit_body\<close>.\<close>

definition exit_world :: "(nat list list, nat, nat, (nat, nat) output_row) world" where
  "exit_world = example_world\<lparr>endpoint_reply := answer exit_body neighbors_body\<rparr>"

text \<open>The same world, except that no credentials are found.\<close>

definition no_credentials_world :: "(nat list list, nat, nat, (nat, nat) output_row) world" where
  "no_credentials_world = example_world\<lparr>sts_reply := (\<lambda>h. Inl NoCredentialsError)\<rparr>"

text \<open>The same world, except that the second request for credentials finds none.\<close>

definition second_batch_fails_world :: "(nat list list, nat, nat, (nat, nat) output_row) world" where
  "second_batch_fails_world =
     example_world\<lparr>sts_reply :=
       (\<lambda>h. if assume_role_calls h = 2 then Inl NoCredentialsError else Inr example_credentials)\<rparr>"

text \<open>
  A row with the image of \<open>example_row1\<close> and another product type and marketplace, for a
  batch that is not homogeneous.
\<close>

definition mixed_row1 :: row where
  "mixed_row1 = \<lparr>item_id = ''item1'', marketplace_id = Text ''222222'', img_id = ''img1'',
     product_type = Text ''PILLOW'', passthrough = []\<rparr>"

text \<open>A dataset whose first row has a marketplace that the table does not know.\<close>

definition unknown_marketplace_world :: "(nat list list, nat, nat, (nat, nat) output_row) world" where
  "unknown_marketplace_world = example_world\<lparr>files := Inr (FrameValue [unknown_row, example_row0])\<rparr>"

section \<open>The loops as list comprehensions\<close>

lemma zip_loop_eq:
  "zip_loop r ns ds data = data @ map (\<lambda>(n, d). data_entry r n d) (zip ns ds)"
  by (induction r ns ds data rule: zip_loop.induct) simp_all

lemma iterrows_loop_eq:
  "iterrows_loop rs ns ds data =
     data @ concat (map (\<lambda>r. map (\<lambda>(n, d). data_entry r n d) (zip ns ds)) rs)"
  by (induction rs arbitrary: data) (simp_all add: zip_loop_eq)

lemma outer_loop_eq:
  "outer_loop rs nss dss data =
     data @ concat (map (\<lambda>(ns, ds). concat (map (\<lambda>r. map (\<lambda>(n, d). data_entry r n d) (zip ns ds)) rs))
                        (zip nss dss))"
  by (induction rs nss dss data rule: outer_loop.induct) (simp_all add: iterrows_loop_eq)

lemma length_rows_block:
  "length (concat (map (\<lambda>r. map (\<lambda>(n, d). data_entry r n d) (zip ns ds)) rs)) =
     length rs * min (length ns) (length ds)"
  by (induction rs) simp_all

lemma length_outer_loop:
  "length (outer_loop rs nss dss data) =
     length data + length rs * (\<Sum>(ns, ds) \<leftarrow> zip nss dss. min (length ns) (length ds))"
proof (induction rs nss dss data rule: outer_loop.induct)
  case (1 df_chunk n_item_ids_list nss distance_list dss data)
  then show ?case
    by (simp add: iterrows_loop_eq length_rows_block algebra_simps)
qed simp_all

lemma format_results_eq:
  "format_results rs nss dss =
     concat (map (\<lambda>(ns, ds). concat (map (\<lambda>r. map (\<lambda>(n, d). data_entry r n d) (zip ns ds)) rs))
                 (zip nss dss))"
  by (simp add: format_results_def outer_loop_eq)

lemma length_format_results:
  "length (format_results rs nss dss) =
     length rs * (\<Sum>(ns, ds) \<leftarrow> zip nss dss. min (length ns) (length ds))"
  by (simp add: format_results_def length_outer_loop)

lemma sum_list_zip_parallel:
  "list_all2 (\<lambda>ns ds. length ns = length ds) nss dss \<Longrightarrow>
     (\<Sum>(ns, ds) \<leftarrow> zip nss dss. min (length ns) (length ds)) = sum_list (map length nss)"
  by (induction nss dss rule: list_all2_induct) simp_all

lemma zip_take_min:
  "zip (take (min (length xs) (length ys)) xs) (take (min (length xs) (length ys)) ys) = zip xs ys"
  by (simp add: take_zip [symmetric])

lemma zip_trunc_inner:
  "zip (map2 (\<lambda>ns ds. take (min (length ns) (length ds)) ns) nss dss)
       (map2 (\<lambda>ns ds. take (min (length ns) (length ds)) ds) nss dss) =
   map (\<lambda>(ns, ds). (take (min (length ns) (length ds)) ns, take (min (length ns) (length ds)) ds))
       (zip nss dss)"
  by (induction nss dss rule: list_induct2') simp_all

lemma sum_list_zip_nth:
  "(\<Sum>(ns, ds) \<leftarrow> zip nss dss. f ns ds) =
     (\<Sum>i<min (length nss) (length dss). f (nss ! i) (dss ! i))"
proof -
  have "(\<Sum>(ns, ds) \<leftarrow> zip nss dss. f ns ds) =
          (\<Sum>i = 0..<length (zip nss dss). (map (\<lambda>(ns, ds). f ns ds) (zip nss dss)) ! i)"
    by (simp add: sum_list_sum_nth)
  also have "\<dots> = (\<Sum>i = 0..<length (zip nss dss). f (nss ! i) (dss ! i))"
    by (rule sum.cong) simp_all
  finally show ?thesis by (simp add: lessThan_atLeast0)
qed

section \<open>Claims about the formatting of results\<close>

text \<open>
  C2 (the code does otherwise). The claim asks for one output row per neighbour of each
  row's own list: 5 rows for a batch of 2 rows whose lists have 3 and 2 entries. The code
  pairs every neighbour list with every row and emits 10 rows, in which the first row
  also carries the neighbours 4 and 5 of the second row's list and the second row the
  neighbours 1, 2 and 3 of the first row's list.
\<close>

theorem format_results_two_rows_ten_outputs:
  "map (\<lambda>r. (r_item_id r, neighbor_item_ids r, neighbors_dist r))
     (format_results [example_row0, example_row1]
        [[1, 2, 3], [4, 5 :: nat]] [[10, 20, 30], [40, 50 :: nat]]) =
   [(''item0'', 1, 10), (''item0'', 2, 20), (''item0'', 3, 30),
    (''item1'', 1, 10), (''item1'', 2, 20), (''item1'', 3, 30),
    (''item0'', 4, 40), (''item0'', 5, 50),
    (''item1'', 4, 40), (''item1'', 5, 50)]"
  by (simp add: format_results_def data_entry_def example_row0_def example_row1_def)

text \<open>
  C3. For parallel neighbour and distance lists of equal lengths, the formatting pairs
  every (neighbour list, distance list) entry with every row of the batch, outer loop over
  the entries and inner loop over the rows, and emits \<open>b * (k\<^sub>1 + ... + k\<^sub>m)\<close> rows for a
  batch of \<open>b\<close> rows.
\<close>

theorem format_results_cross_product:
  assumes "list_all2 (\<lambda>ns ds. length ns = length ds) neighbor_ids neighbor_distances"
  shows "format_results chunk neighbor_ids neighbor_distances =
           concat (map (\<lambda>(ns, ds). concat (map (\<lambda>r. map (\<lambda>(n, d). data_entry r n d) (zip ns ds)) chunk))
                       (zip neighbor_ids neighbor_distances))
         \<and> length (format_results chunk neighbor_ids neighbor_distances) =
             length chunk * sum_list (map length neighbor_ids)"
proof
  show "format_results chunk neighbor_ids neighbor_distances =
           concat (map (\<lambda>(ns, ds). concat (map (\<lambda>r. map (\<lambda>(n, d). data_entry r n d) (zip ns ds)) chunk))
                       (zip neighbor_ids neighbor_distances))"
    by (rule format_results_eq)
  show "length (format_results chunk neighbor_ids neighbor_distances) =
             length chunk * sum_list (map length neighbor_ids)"
    using assms by (simp only: length_format_results sum_list_zip_parallel)
qed

theorem format_results_cross_product_witness:
  "list_all2 (\<lambda>ns ds. length ns = length ds) [[1, 2, 3], [4, 5 :: nat]] [[10, 20, 30], [40, 50 :: nat]]
   \<and> length (format_results [example_row0, example_row1]
        [[1, 2, 3], [4, 5 :: nat]] [[10, 20, 30], [40, 50 :: nat]]) = 2 * (3 + 2)"
  using format_results_cross_product
    [of "[[1, 2, 3], [4, 5 :: nat]]" "[[10, 20, 30], [40, 50 :: nat]]" "[example_row0, example_row1]"]
  by simp

text \<open>
  C10. When the parallel sequences disagree in length the formatting truncates to the
  shorter side: only the first \<open>min (length ids) (length dists)\<close> outer entries are paired,
  each pairing contributes only its first \<open>min\<close> of the two inner lengths pairs, and the
  result is a list of rows in every case (the function is total: nothing is raised).
\<close>

theorem format_results_truncates:
  "format_results chunk ids dists =
     format_results chunk (take (min (length ids) (length dists)) ids)
                          (take (min (length ids) (length dists)) dists)
   \<and> format_results chunk ids dists =
     format_results chunk (map2 (\<lambda>ns ds. take (min (length ns) (length ds)) ns) ids dists)
                          (map2 (\<lambda>ns ds. take (min (length ns) (length ds)) ds) ids dists)
   \<and> length (format_results chunk ids dists) =
     length chunk *
       (\<Sum>i<min (length ids) (length dists). min (length (ids ! i)) (length (dists ! i)))"
proof (intro conjI)
  show "format_results chunk ids dists =
     format_results chunk (take (min (length ids) (length dists)) ids)
                          (take (min (length ids) (length dists)) dists)"
    by (simp only: format_results_eq zip_take_min)
  show "format_results chunk ids dists =
     format_results chunk (map2 (\<lambda>ns ds. take (min (length ns) (length ds)) ns) ids dists)
                          (map2 (\<lambda>ns ds. take (min (length ns) (length ds)) ds) ids dists)"
    unfolding format_results_eq zip_trunc_inner
    by (simp add: comp_def case_prod_unfold zip_take_min)
  show "length (format_results chunk ids dists) =
     length chunk *
       (\<Sum>i<min (length ids) (length dists). min (length (ids ! i)) (length (dists ! i)))"
    by (simp only: length_format_results sum_list_zip_nth)
qed

section \<open>Facts about the invocation\<close>

lemma str_nat_32: "str_nat 32 = ''32''"
  by (simp add: str_nat.simps [of 32] str_nat.simps [of 3] digit_char_def)

lemma InvokeModel_init_Inr:
  assumes "InvokeModel_init chunk = Inr self"
  obtains r rs code where "chunk = r # rs" "mps_mapping (cell_str (marketplace_id r)) = Some code"
    "self = \<lparr>role_arn = ''arn:aws:iam::123456789012:role/MyEC2Role'', region = ''us-east-2'',
             batch_size = 32, df_chunk = chunk, img_id_list = map img_id chunk,
             pt = product_type r, mp = code,
             prompt = \<lparr>physical_id = map img_id chunk, prompt_pt = product_type r\<rparr>\<rparr>"
  using assms by (auto simp: InvokeModel_init_def split: list.splits option.splits)

lemma init_fields:
  assumes "InvokeModel_init chunk = Inr self"
  shows "batch_size self = 32" "img_id_list self = map img_id chunk" "df_chunk self = chunk"
  using assms by (auto elim!: InvokeModel_init_Inr)

lemma invoke_model_small:
  assumes "InvokeModel_init chunk = Inr self" and "length chunk \<le> 32"
  shows "invoke_model w self h =
     (case try_block w self h of
           (Inl e, h') \<Rightarrow> (Inl (except_clauses (repr w) e), h')
         | (Inr Exits, h') \<Rightarrow> (Inr Exits, h')
         | (Inr (Returns (neighbor_ids, neighbor_distances)), h') \<Rightarrow>
             (Inr (Returns (FrameValue (format_results chunk neighbor_ids neighbor_distances))), h'))"
  using assms
  by (auto simp: invoke_model_def init_fields split: prod.splits sum.splits outcome.splits)

lemma except_clauses_generic:
  "e \<noteq> NoCredentialsError \<Longrightarrow>
     except_clauses rp e = Exception \<lparr>event_message = ''FAILURE'', reason = ''An error occurred: '' @ py_str rp e\<rparr>"
  by (cases e) simp_all

lemma init_example_row0:
  "InvokeModel_init [example_row0] = Inr
     \<lparr>role_arn = ''arn:aws:iam::123456789012:role/MyEC2Role'', region = ''us-east-2'',
             batch_size = 32, df_chunk = [example_row0], img_id_list = [''img0''],
             pt = Text ''FLAT_SHEET'', mp = ''US'',
             prompt = \<lparr>physical_id = [''img0''], prompt_pt = Text ''FLAT_SHEET''\<rparr>\<rparr>"
  by (simp add: InvokeModel_init_def example_row0_def mps_mapping_def)

lemma request_bodies_append: "request_bodies (h @ cs) = request_bodies h @ request_bodies cs"
  by (induction h rule: request_bodies.induct) simp_all

lemma InvokeModel_init_Inl:
  assumes "InvokeModel_init (r # rs) = Inl e"
  shows "mps_mapping (cell_str (marketplace_id r)) = None \<and> e = KeyError (cell_str (marketplace_id r))"
  using assms by (auto simp: InvokeModel_init_def split: option.splits)

text \<open>The bodies that the \<^verbatim>\<open>try\<close> statement sends, and when it sends them.\<close>

lemma try_block_sent:
  "request_bodies (snd (try_block w self h)) = request_bodies h @
     (case sts_reply w (h @ [assume_role_call self]) of
        Inl e \<Rightarrow> []
      | Inr creds \<Rightarrow>
          PromptText (prompt self) #
          (case endpoint_reply w
                  (h @ [assume_role_call self, InvokeEndpoint (embeddings_request self creds)]) of
             Inl e \<Rightarrow> []
           | Inr outp \<Rightarrow>
               (case eval_embeddings w outp of
                  Inl e \<Rightarrow> []
                | Inr Exits \<Rightarrow> []
                | Inr (Returns emb) \<Rightarrow>
                    [ArtifactJson \<lparr>embedding = emb, artifact_pt = pt self, marketplace = mp self\<rparr>])))"
  by (simp add: try_block_def Let_def request_bodies_append assume_role_call_def
      embeddings_request_def neighbors_request_def split: sum.splits outcome.splits)

lemma invoke_model_sent:
  "request_bodies (snd (invoke_model w self h)) = request_bodies h @
     (if batch_size self < length (img_id_list self) then []
      else
        (case sts_reply w (h @ [assume_role_call self]) of
           Inl e \<Rightarrow> []
         | Inr creds \<Rightarrow>
             PromptText (prompt self) #
             (case endpoint_reply w
                     (h @ [assume_role_call self, InvokeEndpoint (embeddings_request self creds)]) of
                Inl e \<Rightarrow> []
              | Inr outp \<Rightarrow>
                  (case eval_embeddings w outp of
                     Inl e \<Rightarrow> []
                   | Inr Exits \<Rightarrow> []
                   | Inr (Returns emb) \<Rightarrow>
                       [ArtifactJson \<lparr>embedding = emb, artifact_pt = pt self, marketplace = mp self\<rparr>]))))"
proof (cases "batch_size self < length (img_id_list self)")
  case True
  then show ?thesis by (simp add: invoke_model_def)
next
  case False
  then have "snd (invoke_model w self h) = snd (try_block w self h)"
    by (auto simp: invoke_model_def split: prod.splits sum.splits outcome.splits)
  with False show ?thesis by (simp only: try_block_sent if_False)
qed

lemma requests_df_chunk:
  "assume_role_call (self\<lparr>df_chunk := c\<rparr>) = assume_role_call self"
  "embeddings_request (self\<lparr>df_chunk := c\<rparr>) = embeddings_request self"
  "neighbors_request (self\<lparr>df_chunk := c\<rparr>) = neighbors_request self"
  by (simp_all add: assume_role_call_def embeddings_request_def neighbors_request_def fun_eq_iff)

lemma try_block_df_chunk: "try_block w (self\<lparr>df_chunk := c\<rparr>) h = try_block w self h"
  by (simp only: try_block_def requests_df_chunk)

lemma invoke_model_df_chunk:
  "snd (invoke_model w (self\<lparr>df_chunk := c\<rparr>) h) = snd (invoke_model w self h)
   \<and> (fst (invoke_model w (self\<lparr>df_chunk := c\<rparr>) h) = Inl e \<longleftrightarrow> fst (invoke_model w self h) = Inl e)
   \<and> (fst (invoke_model w (self\<lparr>df_chunk := c\<rparr>) h) = Inr Exits \<longleftrightarrow>
        fst (invoke_model w self h) = Inr Exits)"
  by (auto simp: invoke_model_def try_block_df_chunk split: prod.splits sum.splits outcome.splits)

section \<open>Claims about the invocation\<close>

text \<open>
  C5 (amended). For a batch of more than 32 rows (33, for example) whose first row's
  marketplace is in the table, so that the \<^verbatim>\<open>InvokeModel\<close> object is built,
  \<^verbatim>\<open>invoke_model\<close> raises the \<^verbatim>\<open>FAILURE\<close> envelope of the size check, and the list of
  calls made is the one it started with: no remote call was attempted, in any world.
\<close>

theorem invoke_model_batch_size_guard:
  assumes "InvokeModel_init chunk = Inr self" and "32 < length chunk"
  shows "invoke_model w self h =
           (Inl (Exception \<lparr>event_message = ''FAILURE'', reason = ''the batch_size should be 32''\<rparr>), h)
         \<and> invoke_chunk w chunk h = invoke_model w self h"
  using assms by (simp add: invoke_model_def invoke_chunk_def init_fields str_nat_32)

text \<open>C5 (amended) at a batch of 33 rows.\<close>

theorem invoke_model_batch_size_guard_witness:
  "\<exists>self. InvokeModel_init (replicate 33 example_row0) = Inr self
     \<and> 32 < length (replicate 33 example_row0)
     \<and> invoke_model example_world self [] =
         (Inl (Exception \<lparr>event_message = ''FAILURE'', reason = ''the batch_size should be 32''\<rparr>), [])"
proof -
  have "replicate 33 example_row0 = example_row0 # replicate 32 example_row0"
    by (simp add: numeral_eq_Suc)
  then obtain self where init: "InvokeModel_init (replicate 33 example_row0) = Inr self"
    by (simp add: InvokeModel_init_def example_row0_def mps_mapping_def)
  have "32 < length (replicate 33 example_row0)" by simp
  with init invoke_model_batch_size_guard [OF init, of example_world "[]"] show ?thesis
    by blast
qed

text \<open>
  C5 as stated fails: for a batch of 33 rows whose first row's marketplace is not in the
  table, line 54 raises a \<^verbatim>\<open>KeyError\<close> while the object is built, before the size check
  is reached, and what is raised is not the envelope of the size check.
\<close>

theorem oversized_unknown_marketplace_counterexample:
  "32 < length (replicate 33 unknown_row)
   \<and> invoke_chunk example_world (replicate 33 unknown_row) [] = (Inl (KeyError ''999999''), [])"
proof -
  have "replicate 33 unknown_row = unknown_row # replicate 32 unknown_row"
    by (simp add: numeral_eq_Suc)
  then show ?thesis
    by (simp add: invoke_chunk_def InvokeModel_init_def unknown_row_def mps_mapping_def)
qed

text \<open>
  C8 (amended). When the request for credentials raises \<^verbatim>\<open>NoCredentialsError\<close>,
  \<^verbatim>\<open>invoke_model\<close> raises the \<^verbatim>\<open>FAILURE\<close> envelope whose reason is exactly
  \<^verbatim>\<open>Credentials could not be found\<close>, with a capital C, after that one call. Every other
  exception that leaves the \<^verbatim>\<open>try\<close> statement gives the reason
  \<^verbatim>\<open>An error occurred: \<close> followed by its message, which is never the former reason.
\<close>

theorem missing_credentials_envelope:
  assumes "InvokeModel_init chunk = Inr self" and "length chunk \<le> 32"
  shows "(sts_reply w (h @ [assume_role_call self]) = Inl NoCredentialsError \<longrightarrow>
            invoke_model w self h =
              (Inl (Exception \<lparr>event_message = ''FAILURE'', reason = ''Credentials could not be found''\<rparr>),
               h @ [assume_role_call self]))
       \<and> (\<forall>e h'. try_block w self h = (Inl e, h') \<and> e \<noteq> NoCredentialsError \<longrightarrow>
            invoke_model w self h =
              (Inl (Exception \<lparr>event_message = ''FAILURE'',
                      reason = ''An error occurred: '' @ py_str (repr w) e\<rparr>), h')
            \<and> ''An error occurred: '' @ py_str (repr w) e \<noteq> ''Credentials could not be found'')"
proof (intro conjI allI impI)
  assume "sts_reply w (h @ [assume_role_call self]) = Inl NoCredentialsError"
  then have "try_block w self h = (Inl NoCredentialsError, h @ [assume_role_call self])"
    by (simp add: try_block_def)
  then show "invoke_model w self h =
              (Inl (Exception \<lparr>event_message = ''FAILURE'', reason = ''Credentials could not be found''\<rparr>),
               h @ [assume_role_call self])"
    by (simp add: invoke_model_small [OF assms])
next
  fix e h' assume "try_block w self h = (Inl e, h') \<and> e \<noteq> NoCredentialsError"
  then show "invoke_model w self h =
              (Inl (Exception \<lparr>event_message = ''FAILURE'',
                      reason = ''An error occurred: '' @ py_str (repr w) e\<rparr>), h')"
    by (simp add: invoke_model_small [OF assms] except_clauses_generic)
next
  fix e h'
  show "''An error occurred: '' @ py_str (repr w) e \<noteq> ''Credentials could not be found''"
    by simp
qed

text \<open>C8 (amended) in a world without credentials.\<close>

theorem missing_credentials_envelope_witness:
  "\<exists>self. InvokeModel_init [example_row0] = Inr self \<and> length [example_row0] \<le> 32
     \<and> sts_reply no_credentials_world ([] @ [assume_role_call self]) = Inl NoCredentialsError
     \<and> invoke_model no_credentials_world self [] =
         (Inl (Exception \<lparr>event_message = ''FAILURE'', reason = ''Credentials could not be found''\<rparr>),
          [] @ [assume_role_call self])"
proof -
  obtain self where init: "InvokeModel_init [example_row0] = Inr self"
    by (simp add: init_example_row0)
  have len: "length [example_row0] \<le> 32" by simp
  have sts: "sts_reply no_credentials_world ([] @ [assume_role_call self]) = Inl NoCredentialsError"
    by (simp add: no_credentials_world_def example_world_def)
  from missing_credentials_envelope [OF init len, of no_credentials_world "[]"] sts init len
  show ?thesis by blast
qed

text \<open>
  C8 as stated fails: the reason is not \<^verbatim>\<open>credentials could not be found\<close> with a small
  c.
\<close>

theorem missing_credentials_reason_counterexample:
  "fst (invoke_chunk no_credentials_world [example_row0] []) \<noteq>
     Inl (Exception \<lparr>event_message = ''FAILURE'', reason = ''credentials could not be found''\<rparr>)"
  by (simp add: invoke_chunk_def init_example_row0 invoke_model_def try_block_def
      no_credentials_world_def example_world_def)

text \<open>
  C7 (the code does otherwise). The claim asks for a strict JSON parser that never
  evaluates the body as code and that raises a parse error of its own on every malformed
  payload. Lines 122 and 145 hand the body to \<^verbatim>\<open>eval\<close>. So the body
  \<open>single_quoted_body\<close>, which is not JSON, is accepted without any error and the chain
  goes on to send the second request and to return rows; the body \<open>json_true_body\<close>,
  which is JSON, is refused, with the generic \<^verbatim>\<open>FAILURE\<close> envelope around Python's
  \<^verbatim>\<open>NameError\<close>; and the body \<open>exit_body\<close> is run as code, and its \<^verbatim>\<open>SystemExit\<close>
  leaves \<^verbatim>\<open>invoke_model\<close> and \<^verbatim>\<open>get_predictions\<close> past every handler, so that no envelope
  at all is raised.
\<close>

theorem eval_accepts_non_json_refuses_json:
  "fst (invoke_chunk single_quoted_world [example_row0] []) =
     Inr (Returns (FrameValue (format_results [example_row0] [[7, 8]] [[1, 2]])))
   \<and> length (snd (invoke_chunk single_quoted_world [example_row0] [])) = 3
   \<and> fst (invoke_chunk json_true_world [example_row0] []) =
       Inl (Exception \<lparr>event_message = ''FAILURE'',
              reason = ''An error occurred: name '' @ quote ''true'' @ '' is not defined''\<rparr>)
   \<and> fst (invoke_chunk exit_world [example_row0] []) = Inr Exits
   \<and> fst (get_predictions (exit_world\<lparr>files := Inr (FrameValue [example_row0])\<rparr>) []) = Inr Exits"
proof -
  have chunk: "fst (invoke_chunk single_quoted_world [example_row0] []) =
     Inr (Returns (FrameValue (format_results [example_row0] [[7, 8]] [[1, 2]])))
   \<and> length (snd (invoke_chunk single_quoted_world [example_row0] [])) = 3
   \<and> fst (invoke_chunk json_true_world [example_row0] []) =
       Inl (Exception \<lparr>event_message = ''FAILURE'',
              reason = ''An error occurred: name '' @ quote ''true'' @ '' is not defined''\<rparr>)
   \<and> fst (invoke_chunk exit_world [example_row0] []) = Inr Exits"
    by (simp add: invoke_chunk_def init_example_row0 invoke_model_def try_block_def
        single_quoted_world_def json_true_world_def exit_world_def example_world_def answer_def
        example_eval_embeddings_def
        assume_role_call_def embeddings_request_def neighbors_request_def
        embeddings_body_def single_quoted_body_def json_true_body_def exit_body_def
        dquote_def quote_def)
  have run: "fst (get_predictions (exit_world\<lparr>files := Inr (FrameValue [example_row0])\<rparr>) []) =
     Inr Exits"
    by (simp add: get_predictions_def exit_world_def example_world_def answer_def
        example_eval_embeddings_def
        unique_def split_chunks_def main_batch_size_def Let_def pd_eq_def example_row0_def
        invoke_chunk_def InvokeModel_init_def mps_mapping_def invoke_model_def try_block_def
        assume_role_call_def embeddings_request_def neighbors_request_def
        embeddings_body_def single_quoted_body_def json_true_body_def exit_body_def
        dquote_def quote_def)
  from chunk run show ?thesis by simp
qed

text \<open>
  C9. For every non-empty batch the product type and the region come from the first row
  alone. If the first row's marketplace is in the table, the prompt is the \<^verbatim>\<open>img_id\<close>
  column in order with the first row's product type; as soon as credentials are obtained
  the first request is sent and its body is that prompt; as soon as the first response is
  evaluated the second request is sent and its body has the embeddings, the first row's
  product type and the region of the first row's marketplace; nothing else is sent. If the
  first row's marketplace is not in the table, a \<^verbatim>\<open>KeyError\<close> is raised and nothing is
  sent. In both cases a batch with the same images and the same first-row values makes the
  same calls and raises the same exceptions, whatever its other rows hold: nothing checks
  that the batch is homogeneous.
\<close>

theorem prompts_from_first_row:
  "(\<forall>self. InvokeModel_init (r # rs) = Inr self \<longrightarrow>
        prompt self = \<lparr>physical_id = map img_id (r # rs), prompt_pt = product_type r\<rparr>
      \<and> pt self = product_type r
      \<and> mps_mapping (cell_str (marketplace_id r)) = Some (mp self)
      \<and> request_bodies (snd (invoke_chunk w (r # rs) h)) = request_bodies h @
          (if 32 < length (r # rs) then []
           else
             (case sts_reply w (h @ [assume_role_call self]) of
                Inl e \<Rightarrow> []
              | Inr creds \<Rightarrow>
                  PromptText \<lparr>physical_id = map img_id (r # rs), prompt_pt = product_type r\<rparr> #
                  (case endpoint_reply w
                          (h @ [assume_role_call self,
                                InvokeEndpoint (embeddings_request self creds)]) of
                     Inl e \<Rightarrow> []
                   | Inr outp \<Rightarrow>
                       (case eval_embeddings w outp of
                          Inl e \<Rightarrow> []
                        | Inr Exits \<Rightarrow> []
                        | Inr (Returns emb) \<Rightarrow>
                            [ArtifactJson \<lparr>embedding = emb, artifact_pt = product_type r,
                                           marketplace = mp self\<rparr>])))))
   \<and> (\<forall>e. InvokeModel_init (r # rs) = Inl e \<longrightarrow>
        mps_mapping (cell_str (marketplace_id r)) = None
      \<and> e = KeyError (cell_str (marketplace_id r))
      \<and> invoke_chunk w (r # rs) h = (Inl e, h))
   \<and> (\<forall>r' rs'. map img_id (r' # rs') = map img_id (r # rs) \<and>
                product_type r' = product_type r \<and> marketplace_id r' = marketplace_id r \<longrightarrow>
         snd (invoke_chunk w (r' # rs') h) = snd (invoke_chunk w (r # rs) h) \<and>
         (\<forall>e. fst (invoke_chunk w (r' # rs') h) = Inl e \<longleftrightarrow>
              fst (invoke_chunk w (r # rs) h) = Inl e) \<and>
         (fst (invoke_chunk w (r' # rs') h) = Inr Exits \<longleftrightarrow>
              fst (invoke_chunk w (r # rs) h) = Inr Exits))"
proof (intro conjI allI impI)
  fix self assume init: "InvokeModel_init (r # rs) = Inr self"
  then obtain code where code: "mps_mapping (cell_str (marketplace_id r)) = Some code"
    and self: "self = \<lparr>role_arn = ''arn:aws:iam::123456789012:role/MyEC2Role'', region = ''us-east-2'',
             batch_size = 32, df_chunk = r # rs, img_id_list = map img_id (r # rs),
             pt = product_type r, mp = code,
             prompt = \<lparr>physical_id = map img_id (r # rs), prompt_pt = product_type r\<rparr>\<rparr>"
    by (auto elim!: InvokeModel_init_Inr)
  show p: "prompt self = \<lparr>physical_id = map img_id (r # rs), prompt_pt = product_type r\<rparr>"
    by (simp add: self)
  show t: "pt self = product_type r" by (simp add: self)
  show "mps_mapping (cell_str (marketplace_id r)) = Some (mp self)"
    using code by (simp add: self)
  have b: "batch_size self = 32" and l: "length (img_id_list self) = length (r # rs)"
    by (simp_all add: self)
  have "invoke_chunk w (r # rs) h = invoke_model w self h"
    using init by (simp add: invoke_chunk_def)
  then show "request_bodies (snd (invoke_chunk w (r # rs) h)) = request_bodies h @
          (if 32 < length (r # rs) then []
           else
             (case sts_reply w (h @ [assume_role_call self]) of
                Inl e \<Rightarrow> []
              | Inr creds \<Rightarrow>
                  PromptText \<lparr>physical_id = map img_id (r # rs), prompt_pt = product_type r\<rparr> #
                  (case endpoint_reply w
                          (h @ [assume_role_call self,
                                InvokeEndpoint (embeddings_request self creds)]) of
                     Inl e \<Rightarrow> []
                   | Inr outp \<Rightarrow>
                       (case eval_embeddings w outp of
                          Inl e \<Rightarrow> []
                        | Inr Exits \<Rightarrow> []
                        | Inr (Returns emb) \<Rightarrow>
                            [ArtifactJson \<lparr>embedding = emb, artifact_pt = product_type r,
                                           marketplace = mp self\<rparr>]))))"
    by (simp only: invoke_model_sent b l p t)
next
  fix e assume init: "InvokeModel_init (r # rs) = Inl e"
  from InvokeModel_init_Inl [OF init]
  show "mps_mapping (cell_str (marketplace_id r)) = None"
    and "e = KeyError (cell_str (marketplace_id r))" by simp_all
  from init show "invoke_chunk w (r # rs) h = (Inl e, h)"
    by (simp add: invoke_chunk_def)
next
  fix r' :: row and rs' :: "row list"
  assume eq: "map img_id (r' # rs') = map img_id (r # rs) \<and>
            product_type r' = product_type r \<and> marketplace_id r' = marketplace_id r"
  have both: "snd (invoke_chunk w (r' # rs') h) = snd (invoke_chunk w (r # rs) h) \<and>
         (\<forall>e. fst (invoke_chunk w (r' # rs') h) = Inl e \<longleftrightarrow>
              fst (invoke_chunk w (r # rs) h) = Inl e) \<and>
         (fst (invoke_chunk w (r' # rs') h) = Inr Exits \<longleftrightarrow>
              fst (invoke_chunk w (r # rs) h) = Inr Exits)"
  proof (cases "mps_mapping (cell_str (marketplace_id r))")
    case None
    with eq have "InvokeModel_init (r' # rs') = Inl (KeyError (cell_str (marketplace_id r)))"
      and "InvokeModel_init (r # rs) = Inl (KeyError (cell_str (marketplace_id r)))"
      by (simp_all add: InvokeModel_init_def)
    then show ?thesis by (simp add: invoke_chunk_def)
  next
    case (Some code)
    then obtain self where init: "InvokeModel_init (r # rs) = Inr self"
      and self: "self = \<lparr>role_arn = ''arn:aws:iam::123456789012:role/MyEC2Role'', region = ''us-east-2'',
             batch_size = 32, df_chunk = r # rs, img_id_list = map img_id (r # rs),
             pt = product_type r, mp = code,
             prompt = \<lparr>physical_id = map img_id (r # rs), prompt_pt = product_type r\<rparr>\<rparr>"
      by (simp add: InvokeModel_init_def)
    from eq Some have "InvokeModel_init (r' # rs') = Inr (self\<lparr>df_chunk := r' # rs'\<rparr>)"
      by (simp add: InvokeModel_init_def self)
    then have "invoke_chunk w (r' # rs') h = invoke_model w (self\<lparr>df_chunk := r' # rs'\<rparr>) h"
      by (simp add: invoke_chunk_def)
    moreover have "invoke_chunk w (r # rs) h = invoke_model w self h"
      using init by (simp add: invoke_chunk_def)
    ultimately show ?thesis
      using invoke_model_df_chunk [where w = w and self = self and c = "r' # rs'" and h = h]
      by simp
  qed
  from both show "snd (invoke_chunk w (r' # rs') h) = snd (invoke_chunk w (r # rs) h)"
    by (rule conjunct1)
  from both show "fst (invoke_chunk w (r' # rs') h) = Inr Exits \<longleftrightarrow>
              fst (invoke_chunk w (r # rs) h) = Inr Exits"
    by simp
  fix e
  from both show "fst (invoke_chunk w (r' # rs') h) = Inl e \<longleftrightarrow>
              fst (invoke_chunk w (r # rs) h) = Inl e"
    by simp
qed

text \<open>
  C9 at a batch whose second row has another product type and marketplace: both requests
  are sent, with the first row's values, and the batch of the two first example rows makes
  the same calls.
\<close>

theorem prompts_from_first_row_witness:
  "\<exists>self. InvokeModel_init (example_row0 # [mixed_row1]) = Inr self
     \<and> prompt self = \<lparr>physical_id = [''img0'', ''img1''], prompt_pt = Text ''FLAT_SHEET''\<rparr>
     \<and> mp self = ''US''
     \<and> request_bodies (snd (invoke_chunk example_world (example_row0 # [mixed_row1]) [])) =
         [PromptText \<lparr>physical_id = [''img0'', ''img1''], prompt_pt = Text ''FLAT_SHEET''\<rparr>,
          ArtifactJson \<lparr>embedding = [[1, 2]], artifact_pt = Text ''FLAT_SHEET'',
                         marketplace = ''US''\<rparr>]
     \<and> snd (invoke_chunk example_world (example_row0 # [example_row1]) []) =
         snd (invoke_chunk example_world (example_row0 # [mixed_row1]) [])"
proof -
  obtain self where init: "InvokeModel_init (example_row0 # [mixed_row1]) = Inr self"
    by (simp add: InvokeModel_init_def example_row0_def mps_mapping_def)
  have same: "map img_id (example_row0 # [example_row1]) = map img_id (example_row0 # [mixed_row1]) \<and>
     product_type example_row0 = product_type example_row0 \<and>
     marketplace_id example_row0 = marketplace_id example_row0"
    by (simp add: example_row1_def mixed_row1_def)
  note T = prompts_from_first_row [of example_row0 "[mixed_row1]" example_world "[]"]
  from T have first: "\<forall>self. InvokeModel_init (example_row0 # [mixed_row1]) = Inr self \<longrightarrow>
        prompt self = \<lparr>physical_id = map img_id (example_row0 # [mixed_row1]),
                        prompt_pt = product_type example_row0\<rparr>
      \<and> pt self = product_type example_row0
      \<and> mps_mapping (cell_str (marketplace_id example_row0)) = Some (mp self)
      \<and> request_bodies (snd (invoke_chunk example_world (example_row0 # [mixed_row1]) [])) =
          request_bodies [] @
          (if 32 < length (example_row0 # [mixed_row1]) then []
           else
             (case sts_reply example_world ([] @ [assume_role_call self]) of
                Inl e \<Rightarrow> []
              | Inr creds \<Rightarrow>
                  PromptText \<lparr>physical_id = map img_id (example_row0 # [mixed_row1]),
                               prompt_pt = product_type example_row0\<rparr> #
                  (case endpoint_reply example_world
                          ([] @ [assume_role_call self,
                                InvokeEndpoint (embeddings_request self creds)]) of
                     Inl e \<Rightarrow> []
                   | Inr outp \<Rightarrow>
                       (case eval_embeddings example_world outp of
                          Inl e \<Rightarrow> []
                        | Inr Exits \<Rightarrow> []
                        | Inr (Returns emb) \<Rightarrow>
                            [ArtifactJson \<lparr>embedding = emb, artifact_pt = product_type example_row0,
                                           marketplace = mp self\<rparr>]))))"
    by (rule conjunct1)
  from T have third: "\<forall>r' rs'. map img_id (r' # rs') = map img_id (example_row0 # [mixed_row1]) \<and>
                product_type r' = product_type example_row0 \<and>
                marketplace_id r' = marketplace_id example_row0 \<longrightarrow>
         snd (invoke_chunk example_world (r' # rs') []) =
           snd (invoke_chunk example_world (example_row0 # [mixed_row1]) []) \<and>
         (\<forall>e. fst (invoke_chunk example_world (r' # rs') []) = Inl e \<longleftrightarrow>
              fst (invoke_chunk example_world (example_row0 # [mixed_row1]) []) = Inl e) \<and>
         (fst (invoke_chunk example_world (r' # rs') []) = Inr Exits \<longleftrightarrow>
              fst (invoke_chunk example_world (example_row0 # [mixed_row1]) []) = Inr Exits)"
    by (elim conjE)
  note F = first [rule_format, OF init]
  from F have a: "prompt self = \<lparr>physical_id = [''img0'', ''img1''], prompt_pt = Text ''FLAT_SHEET''\<rparr>"
    by (simp add: example_row0_def mixed_row1_def)
  from F have b: "mp self = ''US''"
    by (simp add: mps_mapping_def example_row0_def)
  from F have "request_bodies (snd (invoke_chunk example_world (example_row0 # [mixed_row1]) [])) =
          request_bodies [] @
          (if 32 < length (example_row0 # [mixed_row1]) then []
           else
             (case sts_reply example_world ([] @ [assume_role_call self]) of
                Inl e \<Rightarrow> []
              | Inr creds \<Rightarrow>
                  PromptText \<lparr>physical_id = map img_id (example_row0 # [mixed_row1]),
                               prompt_pt = product_type example_row0\<rparr> #
                  (case endpoint_reply example_world
                          ([] @ [assume_role_call self,
                                InvokeEndpoint (embeddings_request self creds)]) of
                     Inl e \<Rightarrow> []
                   | Inr outp \<Rightarrow>
                       (case eval_embeddings example_world outp of
                          Inl e \<Rightarrow> []
                        | Inr Exits \<Rightarrow> []
                        | Inr (Returns emb) \<Rightarrow>
                            [ArtifactJson \<lparr>embedding = emb, artifact_pt = product_type example_row0,
                                           marketplace = mp self\<rparr>]))))"
    by (elim conjE)
  then have c: "request_bodies (snd (invoke_chunk example_world (example_row0 # [mixed_row1]) [])) =
         [PromptText \<lparr>physical_id = [''img0'', ''img1''], prompt_pt = Text ''FLAT_SHEET''\<rparr>,
          ArtifactJson \<lparr>embedding = [[1, 2]], artifact_pt = Text ''FLAT_SHEET'',
                         marketplace = ''US''\<rparr>]"
    by (simp add: b example_world_def answer_def embeddings_request_def
        example_eval_embeddings_def example_row0_def mixed_row1_def)
  from third [rule_format, OF same]
  have d: "snd (invoke_chunk example_world (example_row0 # [example_row1]) []) =
         snd (invoke_chunk example_world (example_row0 # [mixed_row1]) [])"
    by (rule conjunct1)
  from init a b c d show ?thesis by (intro exI [of _ self] conjI)
qed

section \<open>Facts about the batches\<close>





















lemma concat_concat_map: "concat (concat (map f xs)) = concat (map (\<lambda>x. concat (f x)) xs)"
  by (induction xs) simp_all



section \<open>Claims about the batches\<close>




section \<open>Facts about the run\<close>

text \<open>The three nested loops hand the batches of \<open>all_chunks\<close> to the inner loop, in order.\<close>

lemma chunk_loop_append:
  "chunk_loop w (xs @ ys) oc h =
     (case chunk_loop w xs oc h of
        (Inl e, h') \<Rightarrow> (Inl e, h')
      | (Inr Exits, h') \<Rightarrow> (Inr Exits, h')
      | (Inr (Returns oc'), h') \<Rightarrow> chunk_loop w ys oc' h')"
  by (induction xs arbitrary: oc h) (auto split: prod.splits sum.splits outcome.splits py_value.splits)

lemma mp_loop_chunks:
  "mp_loop w df_pt mps oc h =
     chunk_loop w (concat (map (\<lambda>mp_id. split_chunks main_batch_size
                                  (filter (\<lambda>r. pd_eq (marketplace_id r) mp_id) df_pt)) mps)) oc h"
  by (induction mps arbitrary: oc h)
     (auto simp: chunk_loop_append split: prod.splits sum.splits outcome.splits)

lemma pt_loop_chunks:
  "pt_loop w df pts oc h =
     chunk_loop w (concat (map (\<lambda>p. concat (map (\<lambda>mp_id. split_chunks main_batch_size
                      (filter (\<lambda>r. pd_eq (marketplace_id r) mp_id)
                         (filter (\<lambda>r. pd_eq (product_type r) p) df)))
                      (unique (map marketplace_id (filter (\<lambda>r. pd_eq (product_type r) p) df))))) pts)) oc h"
  by (induction pts arbitrary: oc h)
     (auto simp: chunk_loop_append mp_loop_chunks Let_def split: prod.splits sum.splits outcome.splits)

lemma pt_loop_all_chunks:
  "pt_loop w df (unique (map product_type df)) oc h = chunk_loop w (all_chunks main_batch_size df) oc h"
  by (simp add: pt_loop_chunks all_chunks_def groups_def Let_def map_concat comp_def concat_concat_map)

text \<open>\<^verbatim>\<open>invoke_model\<close> raises or returns a frame: the dictionary test of line 94 never holds.\<close>

lemma invoke_model_never_dict: "fst (invoke_model w self h) \<noteq> Inr (Returns (DictValue d))"
  by (auto simp: invoke_model_def split: prod.splits sum.splits outcome.splits)

lemma invoke_chunk_never_dict: "fst (invoke_chunk w chunk h) \<noteq> Inr (Returns (DictValue d))"
  by (auto simp: invoke_chunk_def invoke_model_never_dict split: sum.splits)

lemma chunk_loop_stops:
  "invoke_chunk w chunk h = (Inl e, h') \<Longrightarrow> chunk_loop w (chunk # dfs) oc h = (Inl e, h')"
  by simp

section \<open>Claims about the run\<close>

text \<open>
  C1 (the code does otherwise). The claim asks that a batch whose invocation fails be
  appended with its failure reason and that the run go on. In the code the failure is an
  exception, which the test of line 94 never sees: with three batches of which the second
  finds no credentials, \<^verbatim>\<open>get_predictions\<close> raises, nothing is written, and the third
  batch is never invoked (only two requests for credentials are made).
\<close>

theorem second_batch_failure_terminates_run:
  "files second_batch_fails_world = Inr (FrameValue [example_row0, example_row2, example_row3])
   \<and> all_chunks main_batch_size [example_row0, example_row2, example_row3] =
       [[example_row0], [example_row2], [example_row3]]
   \<and> fst (get_predictions second_batch_fails_world []) =
       Inl (Exception \<lparr>event_message = ''FAILURE'',
              reason = py_str quote (Exception \<lparr>event_message = ''FAILURE'',
                                       reason = ''Credentials could not be found''\<rparr>)\<rparr>)
   \<and> assume_role_calls (snd (get_predictions second_batch_fails_world [])) = 2"
  by (simp add: get_predictions_def second_batch_fails_world_def example_world_def answer_def
      example_eval_embeddings_def
      all_chunks_def groups_def unique_def split_chunks_def main_batch_size_def Let_def pd_eq_def
      example_row0_def example_row2_def example_row3_def
      invoke_chunk_def InvokeModel_init_def mps_mapping_def invoke_model_def try_block_def
      assume_role_call_def embeddings_request_def neighbors_request_def
      format_results_def reraise_def)

text \<open>
  C6 (the code does otherwise). For a batch whose marketplace is not in the table the
  lookup raises a \<^verbatim>\<open>KeyError\<close> when the \<^verbatim>\<open>InvokeModel\<close> object is built; the claim asks
  that this be handled as a failure of that batch alone. In the code it ends the run:
  \<^verbatim>\<open>get_predictions\<close> raises a \<^verbatim>\<open>FAILURE\<close> envelope whose reason is the quoted
  marketplace, and the row that follows is never processed (no call is made).
\<close>

theorem unknown_marketplace_terminates_run:
  "files unknown_marketplace_world = Inr (FrameValue [unknown_row, example_row0])
   \<and> InvokeModel_init [unknown_row] = Inl (KeyError ''999999'')
   \<and> get_predictions unknown_marketplace_world [] =
       (Inl (Exception \<lparr>event_message = ''FAILURE'', reason = quote ''999999''\<rparr>), [])"
  by (simp add: get_predictions_def unknown_marketplace_world_def example_world_def
      unique_def split_chunks_def main_batch_size_def Let_def pd_eq_def
      example_row0_def unknown_row_def
      invoke_chunk_def InvokeModel_init_def mps_mapping_def reraise_def)

end
